theory Spec2Isabelle
  imports Main "HOL-Library.Sublist"
begin

section \<open>The build configuration of \<^verbatim>\<open>tailwind.config.js\<close>\<close>

text \<open>
  The repository is one file, \<^verbatim>\<open>src/tailwind.config.js\<close>, whose only statement assigns an
  object literal to \<^verbatim>\<open>module.exports\<close>. The literal is embedded as it is written:
  \<^item> an object with a fixed set of fields (the configuration, \<^verbatim>\<open>theme\<close>, \<^verbatim>\<open>extend\<close>) is a
    record;
  \<^item> an object used as a dictionary of aliases (\<^verbatim>\<open>fontFamily\<close>, \<^verbatim>\<open>colors\<close>) is an
    association list of its properties in the order of the source text, so that a repeated
    key would be visible in the model;
  \<^item> an array is a list, a string literal is a \<^typ>\<open>string\<close> (the double quotes inside
    \<^verbatim>\<open>'"Press Start 2P"'\<close> are characters of the string).
\<close>

subsection \<open>Data model\<close>

text \<open>The object under \<^verbatim>\<open>theme.extend\<close> (lines 7 to 20 of the source).\<close>

record extend_t =
  fontFamily :: "(string \<times> string list) list"
  colors :: "(string \<times> string) list"

text \<open>
  The object under \<^verbatim>\<open>theme\<close> (lines 6 to 21). Its single field is \<^verbatim>\<open>extend\<close> in the
  source; the selector is called \<open>theme_extend\<close> here, because every record already has
  an operation named \<open>extend\<close>.
\<close>

record theme_t =
  theme_extend :: extend_t

text \<open>
  An entry of the \<^verbatim>\<open>plugins\<close> array refers to an extension module. The source lists
  none, so the only thing the model needs of this type is that it exists.
\<close>

datatype plugin = Plugin string

text \<open>The exported object (lines 2 to 23).\<close>

record config =
  content :: "string list"
  theme :: theme_t
  plugins :: "plugin list"

subsection \<open>The exported value\<close>

definition module_exports :: config where
  \<open>module_exports = \<lparr>
    content = [
      ''./frontend/**/*.{html,js}''
    ],
    theme = \<lparr>
      theme_extend = \<lparr>
        fontFamily = [
          (''arcade'', [''"Press Start 2P"'', ''cursive'']),
          (''mono'', [''"JetBrains Mono"'', ''monospace''])
        ],
        colors = [
          (''void'', ''#09090b''),
          (''void-light'', ''#18181b''),
          (''neon-cyan'', ''#00f3ff''),
          (''neon-pink'', ''#ff00ff''),
          (''neon-green'', ''#39ff14''),
          (''grid-line'', ''#27272a'')
        ]
      \<rparr>
    \<rparr>,
    plugins = []
  \<rparr>\<close>

subsection \<open>Reading an object literal\<close>

text \<open>
  Reading the property \<open>k\<close> that an object literal defines itself. When a literal
  repeats a key, the later property overwrites the earlier one, so the list is searched
  from its end. \<open>None\<close> says that the literal defines no such property; names that an
  object inherits are not part of the literal and are not modelled.
\<close>

definition get_prop :: "(string \<times> 'a) list \<Rightarrow> string \<Rightarrow> 'a option" where
  "get_prop obj = map_of (rev obj)"

text \<open>The property names of a literal as the source text lists them.\<close>

definition keys :: "(string \<times> 'a) list \<Rightarrow> string list" where
  "keys obj = map fst obj"

text \<open>The property values of a literal as the source text lists them.\<close>

definition vals :: "(string \<times> 'a) list \<Rightarrow> 'a list" where
  "vals obj = map snd obj"

subsection \<open>Hex colour literals\<close>

text \<open>
  The pattern \<^verbatim>\<open>#[0-9A-Fa-f]{6}\<close>, matched against a whole string: a hash sign followed
  by exactly six hexadecimal digits of either case.
\<close>

definition is_hex_digit :: "char \<Rightarrow> bool" where
  "is_hex_digit c = (c \<in> set ''0123456789ABCDEFabcdef'')"

definition is_hex_color :: "string \<Rightarrow> bool" where
  "is_hex_color s =
     (case s of
        [] \<Rightarrow> False
      | c # ds \<Rightarrow> c = CHR ''#'' \<and> length ds = 6 \<and> list_all is_hex_digit ds)"

text \<open>The same with lowercase digits only: \<^verbatim>\<open>#[0-9a-f]{6}\<close>.\<close>

definition is_lower_hex_digit :: "char \<Rightarrow> bool" where
  "is_lower_hex_digit c = (c \<in> set ''0123456789abcdef'')"

definition is_lower_hex_color :: "string \<Rightarrow> bool" where
  "is_lower_hex_color s =
     (case s of
        [] \<Rightarrow> False
      | c # ds \<Rightarrow> c = CHR ''#'' \<and> length ds = 6 \<and> list_all is_lower_hex_digit ds)"

subsection \<open>The scanning scope\<close>

text \<open>
  Modelled from the spec: the matching of a glob pattern against file paths. It is done by
  the build tool that reads the configuration; the repository holds the pattern only, and
  the spec describes a glob pattern as a file-path matching expression using wildcard
  syntax that identifies which files the tool scans. The definitions of this subsection
  give that syntax its conventional reading, for the part of it the configuration uses:
  \<^item> a pattern and a path are sequences of segments separated by \<^verbatim>\<open>/\<close>;
  \<^item> a segment that is \<^verbatim>\<open>**\<close> stands for any number of directories, none included;
  \<^item> inside a segment, \<^verbatim>\<open>*\<close> stands for any run of characters, \<^verbatim>\<open>{a,b}\<close> for one of
    the alternatives listed, and any other character for itself.
  Whether a wildcard may stand for a name that starts with a dot depends on an option of
  the tool; it is the parameter \<open>dot\<close> of the matcher, and the properties below are
  proved for both of its values.
\<close>

text \<open>
  The segments of a path or of a pattern: the pieces between the separators.
\<close>

fun split_path :: "string \<Rightarrow> string list" where
  "split_path [] = [[]]"
| "split_path (c # cs) =
     (case split_path cs of
        [] \<Rightarrow> [[c]]
      | s # ss \<Rightarrow> if c = CHR ''/'' then [] # s # ss else (c # s) # ss)"

text \<open>
  The parts of a pattern segment, and the segments of a pattern.
\<close>

datatype tok = Lit char | Star | Alt "string list"

datatype seg = Globstar | Seg "tok list"

text \<open>
  Characters with a meaning of their own in glob syntax. Apart from the star and the
  braces read below they put a pattern outside the part that is modelled.
\<close>

definition is_plain :: "char \<Rightarrow> bool" where
  "is_plain c = (c \<notin> set ''*?[]{}()!'' \<and> c \<noteq> CHR 0x5C)"

text \<open>
  Reading one segment, left to right. The first argument is \<open>None\<close> outside braces;
  inside braces it holds the alternative being read (reversed) and those already read
  (last one first). A brace left open, a nested brace and any other special character
  give \<open>None\<close>.
\<close>

fun parse_toks :: "(string \<times> string list) option \<Rightarrow> string \<Rightarrow> tok list option" where
  "parse_toks None [] = Some []"
| "parse_toks (Some b) [] = None"
| "parse_toks None (c # cs) =
     (if c = CHR ''*'' then map_option ((#) Star) (parse_toks None cs)
      else if c = CHR ''{'' then parse_toks (Some ([], [])) cs
      else if is_plain c then map_option ((#) (Lit c)) (parse_toks None cs)
      else None)"
| "parse_toks (Some (cur, done)) (c # cs) =
     (if c = CHR ''}'' then map_option ((#) (Alt (rev (rev cur # done)))) (parse_toks None cs)
      else if c = CHR '','' then parse_toks (Some ([], rev cur # done)) cs
      else if is_plain c then parse_toks (Some (c # cur, done)) cs
      else None)"

definition parse_seg :: "string \<Rightarrow> seg option" where
  "parse_seg s = (if s = ''**'' then Some Globstar else map_option Seg (parse_toks None s))"

text \<open>
  A pattern is read segment by segment; it is outside the modelled part as soon as one of
  its segments is.
\<close>

definition parse_glob :: "string \<Rightarrow> seg list option" where
  "parse_glob pat = those (map parse_seg (split_path pat))"

text \<open>
  Matching one path segment against the parts of a pattern segment.
\<close>

fun match_toks :: "tok list \<Rightarrow> string \<Rightarrow> bool" where
  "match_toks [] s = (s = [])"
| "match_toks (Lit c # ts) [] = False"
| "match_toks (Lit c # ts) (d # ds) = (d = c \<and> match_toks ts ds)"
| "match_toks (Star # ts) [] = match_toks ts []"
| "match_toks (Star # ts) (d # ds) = (match_toks ts (d # ds) \<or> match_toks (Star # ts) ds)"
| "match_toks (Alt as # ts) s =
     list_ex (\<lambda>a. prefix a s \<and> match_toks ts (drop (length a) s)) as"

text \<open>
  A name is hidden when it starts with a dot; a pattern segment asks for such a name
  explicitly when it starts with a literal dot.
\<close>

definition hidden :: "string \<Rightarrow> bool" where
  "hidden s = (case s of [] \<Rightarrow> False | c # cs \<Rightarrow> c = CHR ''.'')"

definition explicit_dot :: "tok list \<Rightarrow> bool" where
  "explicit_dot ts = (case ts of Lit c # us \<Rightarrow> c = CHR ''.'' | _ \<Rightarrow> False)"

text \<open>
  Matching the segments of a path against those of a pattern. With \<open>dot\<close> unset a
  wildcard does not stand for a hidden name.
\<close>

fun match_segs :: "bool \<Rightarrow> seg list \<Rightarrow> string list \<Rightarrow> bool" where
  "match_segs dot [] ps = (ps = [])"
| "match_segs dot (Seg ts # gs) [] = False"
| "match_segs dot (Seg ts # gs) (q # qs) =
     (match_toks ts q \<and> (dot \<or> \<not> hidden q \<or> explicit_dot ts) \<and> match_segs dot gs qs)"
| "match_segs dot (Globstar # gs) [] = match_segs dot gs []"
| "match_segs dot (Globstar # gs) (q # qs) =
     (match_segs dot gs (q # qs) \<or>
      (dot \<or> \<not> hidden q) \<and> match_segs dot (Globstar # gs) qs)"

text \<open>
  A pattern outside the modelled part matches nothing here; the pattern of the
  configuration is inside it (\<open>parse_glob_content\<close> below).
\<close>

definition glob_match :: "bool \<Rightarrow> string \<Rightarrow> string \<Rightarrow> bool" where
  "glob_match dot pat p =
     (case parse_glob pat of None \<Rightarrow> False | Some g \<Rightarrow> match_segs dot g (split_path p))"

text \<open>
  The candidates of a scan are the files below the project root, written from the root
  \<^verbatim>\<open>./\<close>: every segment after the root is the name of a directory entry, which is never
  empty, never \<^verbatim>\<open>.\<close> or \<^verbatim>\<open>..\<close>, and holds no separator.
\<close>

definition is_name :: "string \<Rightarrow> bool" where
  "is_name s = (s \<noteq> [] \<and> s \<noteq> ''.'' \<and> s \<noteq> ''..'' \<and> CHR ''/'' \<notin> set s)"

definition is_project_path :: "string \<Rightarrow> bool" where
  "is_project_path p =
     (case split_path p of
        [] \<Rightarrow> False
      | r # ns \<Rightarrow> r = ''.'' \<and> ns \<noteq> [] \<and> list_all is_name ns)"

text \<open>
  The scanning scope of a configuration: the candidate files matched by one of its
  \<^verbatim>\<open>content\<close> patterns.
\<close>

definition scanned :: "bool \<Rightarrow> config \<Rightarrow> string \<Rightarrow> bool" where
  "scanned dot cfg p = (is_project_path p \<and> list_ex (\<lambda>g. glob_match dot g p) (content cfg))"

text \<open>
  Writing a path from its segments.
\<close>

fun join_path :: "string list \<Rightarrow> string" where
  "join_path [] = []"
| "join_path [s] = s"
| "join_path (s # t # ts) = s @ CHR ''/'' # join_path (t # ts)"

section \<open>Properties\<close>

subsection \<open>The colour pattern\<close>

text \<open>
  The predicate is the pattern: a string matches exactly when it is a hash sign and six
  characters, each a hexadecimal digit.
\<close>

lemma is_hex_color_iff:
  "is_hex_color s \<longleftrightarrow>
     (\<exists>a b c d e f. s = [CHR ''#'', a, b, c, d, e, f] \<and>
        is_hex_digit a \<and> is_hex_digit b \<and> is_hex_digit c \<and>
        is_hex_digit d \<and> is_hex_digit e \<and> is_hex_digit f)"
proof
  assume h: "is_hex_color s"
  then obtain ds where s: "s = CHR ''#'' # ds" and len: "length ds = 6"
    and all: "list_all is_hex_digit ds"
    by (auto simp: is_hex_color_def split: list.splits)
  from len obtain a b c d e f where ds: "ds = [a, b, c, d, e, f]"
    by (auto simp: eval_nat_numeral length_Suc_conv)
  from all ds s show "\<exists>a b c d e f. s = [CHR ''#'', a, b, c, d, e, f] \<and>
        is_hex_digit a \<and> is_hex_digit b \<and> is_hex_digit c \<and>
        is_hex_digit d \<and> is_hex_digit e \<and> is_hex_digit f"
    by simp
next
  assume "\<exists>a b c d e f. s = [CHR ''#'', a, b, c, d, e, f] \<and>
        is_hex_digit a \<and> is_hex_digit b \<and> is_hex_digit c \<and>
        is_hex_digit d \<and> is_hex_digit e \<and> is_hex_digit f"
  then show "is_hex_color s"
    by (auto simp: is_hex_color_def)
qed

text \<open>It rejects a literal that is too short or too long, a digit out of range and a missing
  hash sign.\<close>

lemma is_hex_color_rejects:
  "\<not> is_hex_color ''#09090''"
  "\<not> is_hex_color ''#09090g''"
  "\<not> is_hex_color ''09090b0''"
  "\<not> is_hex_color ''#09090b0''"
  by (simp_all add: is_hex_color_def is_hex_digit_def)

text \<open>A lowercase digit is a digit, so a lowercase literal is a literal.\<close>

lemma is_lower_hex_digit_imp: "is_lower_hex_digit c \<Longrightarrow> is_hex_digit c"
  by (auto simp: is_lower_hex_digit_def is_hex_digit_def)

lemma is_lower_hex_color_imp: "is_lower_hex_color s \<Longrightarrow> is_hex_color s"
  by (auto simp: is_lower_hex_color_def is_hex_color_def list_all_iff
      intro: is_lower_hex_digit_imp split: list.splits)

subsection \<open>Reading the dictionaries\<close>

text \<open>
  On a literal without a repeated key, reading from the end and reading from the start
  agree, and the keys that are defined are the keys of the text.
\<close>

lemma get_prop_distinct: "distinct (keys obj) \<Longrightarrow> get_prop obj = map_of obj"
  by (simp add: get_prop_def keys_def map_of_inject_set rev_map [symmetric])

lemma get_prop_dom: "dom (get_prop obj) = set (keys obj)"
  by (simp add: get_prop_def keys_def dom_map_of_conv_image_fst)

subsection \<open>Glob matching\<close>

text \<open>
  Splitting and writing are inverse: a path is its segments joined by separators.
\<close>

lemma split_path_ne: "split_path p \<noteq> []"
  by (cases p) (simp_all split: list.splits)

lemma join_path_Cons_head: "join_path ((c # s) # ts) = c # join_path (s # ts)"
  by (cases ts) simp_all

lemma join_split_path: "join_path (split_path p) = p"
proof (induction p)
  case Nil
  show ?case by simp
next
  case (Cons c cs)
  obtain s ts where sp: "split_path cs = s # ts"
    using split_path_ne [of cs] by (cases "split_path cs") auto
  with Cons show ?case
    by (simp add: join_path_Cons_head)
qed

text \<open>
  A path written from some directories and a last name.
\<close>

lemma join_path_snoc:
  "join_path (ds @ [f]) = concat (map (\<lambda>d. d @ ''/'') ds) @ f"
proof (induction ds)
  case Nil
  show ?case by simp
next
  case (Cons d ds)
  then show ?case by (cases ds) simp_all
qed

text \<open>
  A segment of literal characters matches itself only.
\<close>

lemma match_toks_lits: "match_toks (map Lit w) s \<longleftrightarrow> s = w"
proof (induction w arbitrary: s)
  case Nil
  show ?case by simp
next
  case (Cons c w)
  show ?case by (cases s) (auto simp: Cons.IH)
qed

text \<open>
  What a star has stood for can be split off at the front.
\<close>

lemma match_toks_star:
  "match_toks (Star # ts) s \<Longrightarrow> \<exists>pre suf. s = pre @ suf \<and> match_toks ts suf"
proof (induction s)
  case Nil
  then show ?case by simp
next
  case (Cons d ds)
  from Cons.prems have "match_toks ts (d # ds) \<or> match_toks (Star # ts) ds" by simp
  then show ?case
  proof
    assume "match_toks ts (d # ds)"
    then have "d # ds = [] @ (d # ds) \<and> match_toks ts (d # ds)" by simp
    then show ?thesis by blast
  next
    assume "match_toks (Star # ts) ds"
    then obtain pre suf where "ds = pre @ suf" "match_toks ts suf"
      using Cons.IH by blast
    then have "d # ds = (d # pre) @ suf \<and> match_toks ts suf" by simp
    then show ?thesis by blast
  qed
qed

text \<open>
  The last segment of the configured pattern: the name ends with one of the two extensions.
\<close>

lemma match_toks_ext:
  "match_toks [Star, Lit CHR ''.'', Alt [''html'', ''js'']] f \<Longrightarrow>
     suffix ''.html'' f \<or> suffix ''.js'' f"
proof -
  assume "match_toks [Star, Lit CHR ''.'', Alt [''html'', ''js'']] f"
  then obtain pre suf where f: "f = pre @ suf"
    and m: "match_toks [Lit CHR ''.'', Alt [''html'', ''js'']] suf"
    using match_toks_star by blast
  from m obtain e where suf: "suf = CHR ''.'' # e"
    and e: "match_toks [Alt [''html'', ''js'']] e"
    by (cases suf) auto
  from e have "e = ''html'' \<or> e = ''js''"
    by (auto simp: prefix_def)
  with f suf show ?thesis
    by (auto simp: suffix_def)
qed

text \<open>
  A double star followed by one segment: the path has a last name, and it matches that
  segment.
\<close>

lemma match_segs_globstar_last:
  "match_segs dot [Globstar, Seg ts] ps \<Longrightarrow> \<exists>ds f. ps = ds @ [f] \<and> match_toks ts f"
proof (induction ps)
  case Nil
  then show ?case by simp
next
  case (Cons q qs)
  from Cons.prems
  have "match_segs dot [Seg ts] (q # qs) \<or> match_segs dot [Globstar, Seg ts] qs"
    by auto
  then show ?case
  proof
    assume "match_segs dot [Seg ts] (q # qs)"
    then have "q # qs = [] @ [q] \<and> match_toks ts q" by simp
    then show ?thesis by blast
  next
    assume "match_segs dot [Globstar, Seg ts] qs"
    then obtain ds f where "qs = ds @ [f]" "match_toks ts f"
      using Cons.IH by blast
    then have "q # qs = (q # ds) @ [f] \<and> match_toks ts f" by simp
    then show ?thesis by blast
  qed
qed

text \<open>
  The configured pattern is inside the modelled part of the syntax, and this is how it reads.
\<close>

lemma parse_glob_content:
  "parse_glob ''./frontend/**/*.{html,js}'' =
     Some [Seg [Lit CHR ''.''], Seg (map Lit ''frontend''), Globstar,
           Seg [Star, Lit CHR ''.'', Alt [''html'', ''js'']]]"
  by (simp add: parse_glob_def parse_seg_def is_plain_def)

text \<open>
  The shape of every path that the configured pattern matches.
\<close>

lemma match_segs_content:
  assumes "match_segs dot [Seg [Lit CHR ''.''], Seg (map Lit ''frontend''), Globstar,
           Seg [Star, Lit CHR ''.'', Alt [''html'', ''js'']]] ps"
  shows "\<exists>ds f. ps = ''.'' # ''frontend'' # ds @ [f] \<and>
           (suffix ''.html'' f \<or> suffix ''.js'' f)"
proof -
  from assms obtain q qs where ps: "ps = q # qs" by (cases ps) auto
  from assms ps have q: "match_toks (map Lit ''.'') q"
    and 1: "match_segs dot [Seg (map Lit ''frontend''), Globstar,
           Seg [Star, Lit CHR ''.'', Alt [''html'', ''js'']]] qs"
    by simp_all
  from 1 obtain r rs where qs: "qs = r # rs" by (cases qs) auto
  from 1 qs have r: "match_toks (map Lit ''frontend'') r"
    and 2: "match_segs dot [Globstar, Seg [Star, Lit CHR ''.'', Alt [''html'', ''js'']]] rs"
    by simp_all
  from q have q': "q = ''.''" by (simp only: match_toks_lits)
  from r have r': "r = ''frontend''" by (simp only: match_toks_lits)
  from 2 obtain ds f where rs: "rs = ds @ [f]"
    and f: "match_toks [Star, Lit CHR ''.'', Alt [''html'', ''js'']] f"
    using match_segs_globstar_last by blast
  from f have "suffix ''.html'' f \<or> suffix ''.js'' f" by (rule match_toks_ext)
  with ps qs rs q' r' show ?thesis by simp
qed

text \<open>
  The converse, for a tool that lets wildcards stand for hidden names: every file with one
  of the two extensions below \<^verbatim>\<open>./frontend\<close> is in the scope.
\<close>

lemma split_path_plain: "CHR ''/'' \<notin> set s \<Longrightarrow> split_path s = [s]"
  by (induction s) auto

lemma split_path_sep:
  "CHR ''/'' \<notin> set s \<Longrightarrow> split_path (s @ CHR ''/'' # t) = s # split_path t"
proof (induction s)
  case Nil
  obtain u us where "split_path t = u # us"
    using split_path_ne [of t] by (cases "split_path t") auto
  then show ?case by simp
next
  case (Cons c s)
  then show ?case by auto
qed

lemma split_path_names:
  "list_all is_name ds \<Longrightarrow> is_name f \<Longrightarrow>
     split_path (concat (map (\<lambda>d. d @ ''/'') ds) @ f) = ds @ [f]"
proof (induction ds)
  case Nil
  then show ?case by (simp add: split_path_plain is_name_def)
next
  case (Cons d ds)
  from Cons.prems have d: "CHR ''/'' \<notin> set d" by (simp add: is_name_def)
  from Cons have "split_path (concat (map (\<lambda>d. d @ ''/'') ds) @ f) = ds @ [f]" by simp
  with split_path_sep [OF d, of "concat (map (\<lambda>d. d @ ''/'') ds) @ f"]
  show ?case by simp
qed

lemma match_toks_star_intro: "match_toks ts suf \<Longrightarrow> match_toks (Star # ts) (pre @ suf)"
proof (induction pre)
  case Nil
  then show ?case by (cases suf) simp_all
next
  case (Cons c pre)
  then show ?case by simp
qed

lemma match_toks_ext_intro:
  "suffix ''.html'' f \<or> suffix ''.js'' f \<Longrightarrow>
     match_toks [Star, Lit CHR ''.'', Alt [''html'', ''js'']] f"
proof -
  assume "suffix ''.html'' f \<or> suffix ''.js'' f"
  then obtain pre suf where f: "f = pre @ suf" and suf: "suf = ''.html'' \<or> suf = ''.js''"
    by (auto simp: suffix_def)
  from suf have "match_toks [Lit CHR ''.'', Alt [''html'', ''js'']] suf" by auto
  then show ?thesis unfolding f by (rule match_toks_star_intro)
qed

lemma match_segs_globstar_intro:
  "match_toks ts f \<Longrightarrow> match_segs True [Globstar, Seg ts] (ds @ [f])"
  by (induction ds) simp_all

lemma scanned_complete:
  assumes "list_all is_name ds" and "is_name f"
    and "suffix ''.html'' f \<or> suffix ''.js'' f"
  shows "scanned True module_exports (''./frontend/'' @ concat (map (\<lambda>d. d @ ''/'') ds) @ f)"
proof -
  let ?rest = "concat (map (\<lambda>d. d @ ''/'') ds) @ f"
  have rest: "split_path ?rest = ds @ [f]"
    using assms(1,2) by (rule split_path_names)
  have a: "CHR ''/'' \<notin> set ''.''" and b: "CHR ''/'' \<notin> set ''frontend''"
    by simp_all
  have "split_path (''frontend'' @ CHR ''/'' # ?rest) = ''frontend'' # ds @ [f]"
    by (simp only: split_path_sep [OF b] rest)
  then have "split_path (''.'' @ CHR ''/'' # ''frontend'' @ CHR ''/'' # ?rest) =
      ''.'' # ''frontend'' # ds @ [f]"
    by (simp only: split_path_sep [OF a])
  then have sp: "split_path (''./frontend/'' @ ?rest) = ''.'' # ''frontend'' # ds @ [f]"
    by (simp del: split_path.simps)
  have m: "match_segs True [Globstar, Seg [Star, Lit CHR ''.'', Alt [''html'', ''js'']]] (ds @ [f])"
    using assms(3) by (intro match_segs_globstar_intro match_toks_ext_intro)
  have lits: "match_toks (map Lit ''frontend'') ''frontend''"
    by (simp only: match_toks_lits)
  have "is_project_path (''./frontend/'' @ ?rest)"
    unfolding is_project_path_def sp using assms(1,2) by (simp add: is_name_def)
  moreover have "glob_match True ''./frontend/**/*.{html,js}'' (''./frontend/'' @ ?rest)"
    unfolding glob_match_def parse_glob_content sp using m lits by simp
  ultimately show ?thesis
    by (simp add: scanned_def module_exports_def)
qed

text \<open>
  Files in and out of the scope, whatever the option, and one hidden directory that only
  the option admits.
\<close>

lemma scanned_examples:
  "scanned dot module_exports ''./frontend/index.html''"
  "scanned dot module_exports ''./frontend/js/app.js''"
  "\<not> scanned dot module_exports ''./frontend/style.css''"
  "\<not> scanned dot module_exports ''./frontend/js/app.jsx''"
  "\<not> scanned dot module_exports ''./src/index.html''"
  "\<not> scanned dot module_exports ''./index.html''"
  "\<not> scanned dot module_exports ''./frontend/../index.html''"
  "\<not> scanned dot module_exports ''./frontend/js''"
  "scanned True module_exports ''./frontend/.cache/app.js''"
  "\<not> scanned False module_exports ''./frontend/.cache/app.js''"
  by (simp_all add: scanned_def glob_match_def parse_glob_content is_project_path_def
      is_name_def hidden_def explicit_dot_def module_exports_def)

subsection \<open>The claims\<close>

text \<open>
  C1: every value of the colours mapping \<^verbatim>\<open>theme.extend.colors\<close> matches the pattern
  \<^verbatim>\<open>#[0-9A-Fa-f]{6}\<close>; equivalently, every colour alias key is defined and its value is
  a hex colour literal of the form \<^verbatim>\<open>#RRGGBB\<close>.
\<close>

theorem colors_hex:
  "(\<forall>v \<in> set (vals (colors (theme_extend (theme module_exports)))). is_hex_color v) \<and>
   (\<forall>k \<in> set (keys (colors (theme_extend (theme module_exports)))).
      \<exists>v. get_prop (colors (theme_extend (theme module_exports))) k = Some v \<and> is_hex_color v)"
  by (simp add: module_exports_def vals_def keys_def get_prop_def is_hex_color_def
      is_hex_digit_def)

text \<open>The statement used at the value \<^verbatim>\<open>#00f3ff\<close> and at the key \<^verbatim>\<open>neon-cyan\<close>.\<close>

theorem colors_hex_witness:
  "''#00f3ff'' \<in> set (vals (colors (theme_extend (theme module_exports)))) \<and>
   is_hex_color ''#00f3ff'' \<and>
   ''neon-cyan'' \<in> set (keys (colors (theme_extend (theme module_exports)))) \<and>
   (\<exists>v. get_prop (colors (theme_extend (theme module_exports))) ''neon-cyan'' = Some v \<and>
        is_hex_color v)"
proof -
  have v: "''#00f3ff'' \<in> set (vals (colors (theme_extend (theme module_exports))))"
    by (simp add: module_exports_def vals_def)
  have k: "''neon-cyan'' \<in> set (keys (colors (theme_extend (theme module_exports))))"
    by (simp add: module_exports_def keys_def)
  from colors_hex v have 1: "is_hex_color ''#00f3ff''"
    by blast
  from colors_hex k
  have 2: "\<exists>v. get_prop (colors (theme_extend (theme module_exports))) ''neon-cyan'' = Some v \<and>
        is_hex_color v"
    by blast
  from v 1 k 2 show ?thesis by blast
qed

text \<open>
  C2: looking up the font alias \<^verbatim>\<open>arcade\<close> yields a sequence of exactly two entries: the
  first (the primary font) is the string \<^verbatim>\<open>"Press Start 2P"\<close>, double quotes included, and
  the rest (the fallbacks) is the single string \<^verbatim>\<open>cursive\<close>.
\<close>

theorem fontFamily_arcade:
  \<open>get_prop (fontFamily (theme_extend (theme module_exports))) ''arcade'' =
     Some [''"Press Start 2P"'', ''cursive''] \<and>
   map_option hd (get_prop (fontFamily (theme_extend (theme module_exports))) ''arcade'') =
     Some ''"Press Start 2P"'' \<and>
   map_option tl (get_prop (fontFamily (theme_extend (theme module_exports))) ''arcade'') =
     Some [''cursive''] \<and>
   map_option length (get_prop (fontFamily (theme_extend (theme module_exports))) ''arcade'') =
     Some 2\<close>
  by (simp add: get_prop_def module_exports_def)

text \<open>
  C3: looking up the colour alias \<^verbatim>\<open>void\<close> in the colours mapping returns exactly the
  string \<^verbatim>\<open>#09090b\<close>.
\<close>

theorem colors_void:
  "get_prop (colors (theme_extend (theme module_exports))) ''void'' = Some ''#09090b''"
  by (simp add: get_prop_def module_exports_def)

text \<open>
  C4: the top-level \<^verbatim>\<open>content\<close> sequence is a non-empty sequence of glob-pattern strings.
  That its entries are strings is their type; none of them is the empty string.
\<close>

theorem content_nonempty:
  "content module_exports \<noteq> [] \<and> list_all (\<lambda>g. g \<noteq> []) (content module_exports)"
  by (simp add: module_exports_def)

text \<open>
  C5: every value of the \<^verbatim>\<open>fontFamily\<close> mapping is a non-empty sequence of strings;
  equivalently, every font alias key is defined and its value is not the empty sequence.
  That the entries are strings is their type.
\<close>

theorem fontFamily_nonempty:
  "(\<forall>v \<in> set (vals (fontFamily (theme_extend (theme module_exports)))). v \<noteq> []) \<and>
   (\<forall>k \<in> set (keys (fontFamily (theme_extend (theme module_exports)))).
      \<exists>v. get_prop (fontFamily (theme_extend (theme module_exports))) k = Some v \<and> v \<noteq> [])"
  by (simp add: module_exports_def vals_def keys_def get_prop_def)

text \<open>The statement used at the value and at the key of the alias \<^verbatim>\<open>mono\<close>.\<close>

theorem fontFamily_nonempty_witness:
  \<open>[''"JetBrains Mono"'', ''monospace''] \<in>
     set (vals (fontFamily (theme_extend (theme module_exports)))) \<and>
   [''"JetBrains Mono"'', ''monospace''] \<noteq> ([] :: string list) \<and>
   ''mono'' \<in> set (keys (fontFamily (theme_extend (theme module_exports)))) \<and>
   (\<exists>v. get_prop (fontFamily (theme_extend (theme module_exports))) ''mono'' = Some v \<and>
        v \<noteq> [])\<close>
proof -
  have v: \<open>[''"JetBrains Mono"'', ''monospace''] \<in>
     set (vals (fontFamily (theme_extend (theme module_exports))))\<close>
    by (simp add: module_exports_def vals_def)
  have k: "''mono'' \<in> set (keys (fontFamily (theme_extend (theme module_exports))))"
    by (simp add: module_exports_def keys_def)
  from fontFamily_nonempty v
  have 1: \<open>[''"JetBrains Mono"'', ''monospace''] \<noteq> ([] :: string list)\<close>
    by blast
  from fontFamily_nonempty k
  have 2: "\<exists>v. get_prop (fontFamily (theme_extend (theme module_exports))) ''mono'' = Some v \<and>
        v \<noteq> []"
    by blast
  from v 1 k 2 show ?thesis by blast
qed

text \<open>
  C6: the \<^verbatim>\<open>plugins\<close> field is the empty sequence.
\<close>

theorem plugins_empty: "plugins module_exports = [] \<and> length (plugins module_exports) = 0"
  by (simp add: module_exports_def)

text \<open>
  C7: the keys of the \<^verbatim>\<open>fontFamily\<close> literal are pairwise distinct, and so are the keys of
  the \<^verbatim>\<open>colors\<close> literal: neither repeats an alias.
\<close>

theorem keys_distinct:
  "distinct (keys (fontFamily (theme_extend (theme module_exports)))) \<and>
   distinct (keys (colors (theme_extend (theme module_exports))))"
  by (simp add: module_exports_def keys_def)

text \<open>
  C9: the \<^verbatim>\<open>content\<close> sequence has exactly one entry, the string
  \<^verbatim>\<open>./frontend/**/*.{html,js}\<close>, so the scanning scope is limited to \<^verbatim>\<open>.html\<close> and
  \<^verbatim>\<open>.js\<close> files under the \<^verbatim>\<open>./frontend\<close> directory tree: whatever the option, a file
  in the scope is written \<^verbatim>\<open>./frontend/\<close>, then any number of directory names, then a
  file name that ends with \<^verbatim>\<open>.html\<close> or with \<^verbatim>\<open>.js\<close>. The directory names are names of
  directory entries, so the path does not leave the tree through \<^verbatim>\<open>..\<close>.
\<close>

theorem content_scope:
  "content module_exports = [''./frontend/**/*.{html,js}''] \<and>
   length (content module_exports) = 1 \<and>
   (scanned dot module_exports p \<longrightarrow>
      (\<exists>ds f. p = ''./frontend/'' @ concat (map (\<lambda>d. d @ ''/'') ds) @ f \<and>
         list_all is_name ds \<and> is_name f \<and> (suffix ''.html'' f \<or> suffix ''.js'' f)))"
proof (intro conjI impI)
  show "content module_exports = [''./frontend/**/*.{html,js}'']"
    by (simp add: module_exports_def)
  show "length (content module_exports) = 1"
    by (simp add: module_exports_def)
next
  assume s: "scanned dot module_exports p"
  then have pp: "is_project_path p"
    and m: "glob_match dot ''./frontend/**/*.{html,js}'' p"
    by (simp_all add: scanned_def module_exports_def)
  from m have "match_segs dot [Seg [Lit CHR ''.''], Seg (map Lit ''frontend''), Globstar,
           Seg [Star, Lit CHR ''.'', Alt [''html'', ''js'']]] (split_path p)"
    by (simp only: glob_match_def parse_glob_content option.case)
  then obtain ds f where sp: "split_path p = ''.'' # ''frontend'' # ds @ [f]"
    and ext: "suffix ''.html'' f \<or> suffix ''.js'' f"
    using match_segs_content by blast
  from pp sp have names: "list_all is_name ds" "is_name f"
    by (simp_all add: is_project_path_def)
  have "p = join_path (split_path p)" by (simp add: join_split_path)
  also have "\<dots> = ''./frontend/'' @ join_path (ds @ [f])"
    by (cases "ds @ [f]") (simp_all add: sp)
  finally have "p = ''./frontend/'' @ concat (map (\<lambda>d. d @ ''/'') ds) @ f"
    by (simp only: join_path_snoc)
  with names ext
  show "\<exists>ds f. p = ''./frontend/'' @ concat (map (\<lambda>d. d @ ''/'') ds) @ f \<and>
         list_all is_name ds \<and> is_name f \<and> (suffix ''.html'' f \<or> suffix ''.js'' f)"
    by blast
qed

text \<open>
  The statement used at the file \<^verbatim>\<open>./frontend/js/app.js\<close>, with the option unset.
\<close>

theorem content_scope_witness:
  "scanned False module_exports ''./frontend/js/app.js'' \<and>
   (\<exists>ds f. ''./frontend/js/app.js'' = ''./frontend/'' @ concat (map (\<lambda>d. d @ ''/'') ds) @ f \<and>
         list_all is_name ds \<and> is_name f \<and> (suffix ''.html'' f \<or> suffix ''.js'' f))"
proof -
  have s: "scanned False module_exports ''./frontend/js/app.js''"
    by (simp add: scanned_def glob_match_def parse_glob_content is_project_path_def
      is_name_def hidden_def explicit_dot_def module_exports_def)
  from content_scope [of False "''./frontend/js/app.js''"] s
  have "\<exists>ds f. ''./frontend/js/app.js'' = ''./frontend/'' @ concat (map (\<lambda>d. d @ ''/'') ds) @ f \<and>
         list_all is_name ds \<and> is_name f \<and> (suffix ''.html'' f \<or> suffix ''.js'' f)"
    by blast
  with s show ?thesis by blast
qed

text \<open>
  C10: \<^verbatim>\<open>fontFamily\<close> has precisely the two keys \<^verbatim>\<open>arcade\<close> and \<^verbatim>\<open>mono\<close>, with
  \<^verbatim>\<open>mono\<close> mapped to the two-element sequence of \<^verbatim>\<open>"JetBrains Mono"\<close> and
  \<^verbatim>\<open>monospace\<close>; \<^verbatim>\<open>colors\<close> has precisely the six keys \<^verbatim>\<open>void\<close>, \<^verbatim>\<open>void-light\<close>,
  \<^verbatim>\<open>neon-cyan\<close>, \<^verbatim>\<open>neon-pink\<close>, \<^verbatim>\<open>neon-green\<close> and \<^verbatim>\<open>grid-line\<close>, and each of its
  values is a lowercase six-digit hex literal.
\<close>

theorem theme_extend_exact:
  \<open>keys (fontFamily (theme_extend (theme module_exports))) = [''arcade'', ''mono''] \<and>
   length (keys (fontFamily (theme_extend (theme module_exports)))) = 2 \<and>
   dom (get_prop (fontFamily (theme_extend (theme module_exports)))) = {''arcade'', ''mono''} \<and>
   get_prop (fontFamily (theme_extend (theme module_exports))) ''mono'' =
     Some [''"JetBrains Mono"'', ''monospace''] \<and>
   keys (colors (theme_extend (theme module_exports))) =
     [''void'', ''void-light'', ''neon-cyan'', ''neon-pink'', ''neon-green'', ''grid-line''] \<and>
   length (keys (colors (theme_extend (theme module_exports)))) = 6 \<and>
   dom (get_prop (colors (theme_extend (theme module_exports)))) =
     {''void'', ''void-light'', ''neon-cyan'', ''neon-pink'', ''neon-green'', ''grid-line''} \<and>
   list_all is_lower_hex_color (vals (colors (theme_extend (theme module_exports))))\<close>
  by (simp add: module_exports_def keys_def vals_def get_prop_def is_lower_hex_color_def
      is_lower_hex_digit_def insert_commute)

end
